theory Spec2Isabelle
  imports Main
begin

section \<open>Python values used by the monitor\<close>

text \<open>
  Strings are ASCII text. \<open>str.lower()\<close> maps the letters \<open>A\<close> to \<open>Z\<close> to
  \<open>a\<close> to \<open>z\<close> and leaves every other character alone.
\<close>

definition lower_char :: "char \<Rightarrow> char" where
  "lower_char c =
     (case map_of (zip ''ABCDEFGHIJKLMNOPQRSTUVWXYZ'' ''abcdefghijklmnopqrstuvwxyz'') c of
        None \<Rightarrow> c
      | Some d \<Rightarrow> d)"

definition py_lower :: "string \<Rightarrow> string" where
  "py_lower s = map lower_char s"

text \<open>\<open>k in s\<close> on two strings: \<open>k\<close> occurs in \<open>s\<close> as a contiguous run.\<close>

fun str_contains :: "string \<Rightarrow> string \<Rightarrow> bool" where
  "str_contains k [] = (k = [])"
| "str_contains k (c # cs) = (take (length k) (c # cs) = k \<or> str_contains k cs)"

text \<open>\<open>str(n)\<close> on an integer: the decimal digits, with a minus sign below zero.\<close>

definition digit_char :: "nat \<Rightarrow> char" where
  "digit_char d = ''0123456789'' ! d"

fun str_nat :: "nat \<Rightarrow> string" where
  "str_nat n = (if n < 10 then [digit_char n] else str_nat (n div 10) @ [digit_char (n mod 10)])"

declare str_nat.simps [simp del]

definition str_int :: "int \<Rightarrow> string" where
  "str_int i = (if i < 0 then CHR ''-'' # str_nat (nat (- i)) else str_nat (nat i))"

text \<open>
  An f-string field \<open>{x}\<close> where \<open>x\<close> came from \<open>dict.get\<close>: the string itself, or
  the text \<open>None\<close> when the key was missing.
\<close>

definition py_str :: "string option \<Rightarrow> string" where
  "py_str x = (case x of None \<Rightarrow> ''None'' | Some s \<Rightarrow> s)"

text \<open>\<open>sep.join(xs)\<close>.\<close>

fun str_join :: "string \<Rightarrow> string list \<Rightarrow> string" where
  "str_join sep [] = []"
| "str_join sep [x] = x"
| "str_join sep (x # y # ys) = x @ sep @ str_join sep (y # ys)"


section \<open>Events, threats and errors\<close>

text \<open>
  An event is a dict with the keys the generator writes. A field that is \<open>None\<close> here is
  a key missing from the dict; the dict is empty when every key is missing. The values
  have the types the generator gives them.
\<close>

record event =
  timestamp :: "string option"
  event_id :: "string option"
  event_type :: "string option"
  severity :: "string option"
  description :: "string option"
  source_ip :: "string option"
  user_id :: "string option"
  resource :: "string option"
  threat_indicators :: "string list option"
  metadata :: "(string \<rightharpoonup> string) option"

definition empty_event :: event where
  "empty_event =
     \<lparr>timestamp = None, event_id = None, event_type = None, severity = None,
      description = None, source_ip = None, user_id = None, resource = None,
      threat_indicators = None, metadata = None\<rparr>"

text \<open>\<open>not event\<close> on a dict.\<close>

definition event_is_empty :: "event \<Rightarrow> bool" where
  "event_is_empty ev \<longleftrightarrow>
     timestamp ev = None \<and> event_id ev = None \<and> event_type ev = None \<and>
     severity ev = None \<and> description ev = None \<and> source_ip ev = None \<and>
     user_id ev = None \<and> resource ev = None \<and> threat_indicators ev = None \<and>
     metadata ev = None"

record threat =
  threat_type :: string
  threat_description :: string
  risk_score :: int
  detection_method :: string

text \<open>
  \<open>KeyError k\<close> is raised by \<open>event[k]\<close> on a missing key. \<open>TelemetryError msg\<close> is an
  exception (a subclass of \<open>Exception\<close>) raised by a call into the AWS integration.
\<close>

datatype error = KeyError string | TelemetryError string


section \<open>SecurityMonitor\<close>

record monitor =
  failed_login_attempts :: "string \<rightharpoonup> int"
  max_failed_attempts :: int

definition init_monitor :: monitor where
  "init_monitor = \<lparr>failed_login_attempts = Map.empty, max_failed_attempts = 3\<rparr>"

definition critical_keywords :: "string list" where
  "critical_keywords =
     [''unauthorized access'', ''privilege escalation'', ''data exfiltration'',
      ''malware'', ''code injection'', ''backdoor'', ''rootkit'']"

definition suspicious_keywords :: "string list" where
  "suspicious_keywords =
     [''brute_force'', ''suspicious'', ''anomalous'', ''unrecognized'',
      ''multiple failed'', ''unusual activity'']"

definition blocked_ips :: "string list" where
  "blocked_ips = [''203.0.113.45'', ''185.220.101.182'', ''94.142.241.111'']"

definition restricted_resources :: "string list" where
  "restricted_resources =
     [''admin_panel'', ''database_service'', ''security_config'', ''backup_service'']"

definition high_risk_users :: "string list" where
  "high_risk_users = [''temp_user'', ''guest_user'', ''unknown_user'', ''backdoor_user'']"

definition severity_levels :: "(string \<times> int) list" where
  "severity_levels = [(''info'', 1), (''warning'', 2), (''high'', 3), (''critical'', 4)]"

subsection \<open>The two print helpers\<close>

text \<open>
  \<open>_log_event_analysis\<close> and \<open>_log_threat_detection\<close> only print, but they read the
  event with \<open>event[key]\<close>, which raises on a missing key. The keys are read in the
  order of the source text. What is printed is not modelled.
\<close>

definition log_event_analysis :: "event \<Rightarrow> error + unit" where
  "log_event_analysis ev =
     (if event_type ev = None then Inl (KeyError ''event_type'')
      else if user_id ev = None then Inl (KeyError ''user_id'')
      else if source_ip ev = None then Inl (KeyError ''source_ip'')
      else Inr ())"

definition log_threat_detection :: "threat \<Rightarrow> event \<Rightarrow> error + unit" where
  "log_threat_detection th ev =
     (if event_id ev = None then Inl (KeyError ''event_id'')
      else if user_id ev = None then Inl (KeyError ''user_id'')
      else if source_ip ev = None then Inl (KeyError ''source_ip'')
      else if resource ev = None then Inl (KeyError ''resource'')
      else Inr ())"

subsection \<open>The seven rules\<close>

definition check_threat_keywords :: "event \<Rightarrow> threat option" where
  "check_threat_keywords ev =
     (let d = py_lower (case description ev of None \<Rightarrow> [] | Some s \<Rightarrow> s) in
      case find (\<lambda>keyword. str_contains keyword d) critical_keywords of
        Some keyword \<Rightarrow>
          Some \<lparr>threat_type = ''KEYWORD_THREAT'',
                threat_description =
                  ''Critical security keyword detected: '' @ [CHR 0x27] @ keyword @ [CHR 0x27],
                risk_score = 9,
                detection_method = ''keyword_analysis''\<rparr>
      | None \<Rightarrow>
          (case find (\<lambda>keyword. str_contains keyword d) suspicious_keywords of
             Some keyword \<Rightarrow>
               Some \<lparr>threat_type = ''SUSPICIOUS_ACTIVITY'',
                     threat_description =
                       ''Suspicious activity keyword detected: '' @ [CHR 0x27] @ keyword @ [CHR 0x27],
                     risk_score = 6,
                     detection_method = ''keyword_analysis''\<rparr>
           | None \<Rightarrow> None))"

definition check_suspicious_ip :: "event \<Rightarrow> threat option" where
  "check_suspicious_ip ev =
     (case source_ip ev of
        None \<Rightarrow> None
      | Some ip \<Rightarrow>
          if ip \<in> set blocked_ips
          then Some \<lparr>threat_type = ''MALICIOUS_IP'',
                     threat_description = ''Request from known malicious IP: '' @ ip,
                     risk_score = 8,
                     detection_method = ''ip_reputation''\<rparr>
          else None)"

definition check_suspicious_user :: "event \<Rightarrow> threat option" where
  "check_suspicious_user ev =
     (case user_id ev of
        None \<Rightarrow> None
      | Some u \<Rightarrow>
          if u \<in> set high_risk_users
          then Some \<lparr>threat_type = ''HIGH_RISK_USER'',
                     threat_description = ''Activity from high-risk user account: '' @ u,
                     risk_score = 7,
                     detection_method = ''user_profile_analysis''\<rparr>
          else None)"

definition check_restricted_resource :: "event \<Rightarrow> threat option" where
  "check_restricted_resource ev =
     (case resource ev of
        None \<Rightarrow> None
      | Some r \<Rightarrow>
          if r \<in> set restricted_resources
          then Some \<lparr>threat_type = ''RESTRICTED_RESOURCE_ACCESS'',
                     threat_description = ''Access attempt to restricted resource: '' @ r,
                     risk_score = 7,
                     detection_method = ''resource_access_control''\<rparr>
          else None)"

text \<open>
  The key of the counter is an f-string: the user id, an at sign, the source address,
  each formatted as \<open>str\<close> does.
\<close>

definition login_key :: "event \<Rightarrow> string" where
  "login_key ev = py_str (user_id ev) @ ''@'' @ py_str (source_ip ev)"

definition brute_force_threat :: "int \<Rightarrow> threat" where
  "brute_force_threat n =
     \<lparr>threat_type = ''BRUTE_FORCE_ATTACK'',
      threat_description =
        ''Multiple failed login attempts detected ('' @ str_int n @ '' attempts)'',
      risk_score = 8,
      detection_method = ''behavioral_analysis''\<rparr>"

definition check_failed_login_pattern :: "monitor \<Rightarrow> event \<Rightarrow> monitor \<times> threat option" where
  "check_failed_login_pattern m ev =
     (if event_type ev \<noteq> Some ''failed_login'' then (m, None)
      else
        let key = login_key ev;
            n = (case failed_login_attempts m key of None \<Rightarrow> 0 | Some c \<Rightarrow> c) + 1;
            m' = m\<lparr>failed_login_attempts := (failed_login_attempts m)(key \<mapsto> n)\<rparr>
        in if n \<ge> max_failed_attempts m then (m', Some (brute_force_threat n))
           else (m', None))"

definition check_event_severity :: "event \<Rightarrow> threat option" where
  "check_event_severity ev =
     (let sev = (case severity ev of None \<Rightarrow> ''info'' | Some s \<Rightarrow> s);
          severity_score = (case map_of severity_levels sev of None \<Rightarrow> 1 | Some v \<Rightarrow> v)
      in if severity_score \<ge> 4
         then Some \<lparr>threat_type = ''CRITICAL_SECURITY_EVENT'',
                    threat_description =
                      ''Critical severity event detected: '' @ py_str (description ev),
                    risk_score = 9,
                    detection_method = ''severity_analysis''\<rparr>
         else if severity_score \<ge> 3
         then Some \<lparr>threat_type = ''HIGH_RISK_EVENT'',
                    threat_description =
                      ''High severity event detected: '' @ py_str (description ev),
                    risk_score = 7,
                    detection_method = ''severity_analysis''\<rparr>
         else None)"

definition check_threat_indicators :: "event \<Rightarrow> threat option" where
  "check_threat_indicators ev =
     (let indicators = (case threat_indicators ev of None \<Rightarrow> [] | Some xs \<Rightarrow> xs) in
      if indicators = [] then None
      else Some \<lparr>threat_type = ''THREAT_INDICATORS_DETECTED'',
                 threat_description =
                   ''Multiple threat indicators present: '' @ str_join '', '' indicators,
                 risk_score = min 10 (5 + int (length indicators) * 2),
                 detection_method = ''threat_intelligence''\<rparr>)"

subsection \<open>Telemetry\<close>

text \<open>
  The AWS integration is an external collaborator. During one call of \<open>analyze_event\<close>
  each of its methods is called at most once, so its behaviour in that call is a function
  from the method to what the call does: \<open>None\<close> when it returns, \<open>Some msg\<close> when it
  raises an exception with that message. The values it returns are discarded by the
  monitor and the payloads (which hold clock readings) are not modelled.
\<close>

datatype aws_call =
  SendThreatAlert | SendSecurityMetric | TriggerLambdaResponse | CreateLogStream | SendSecurityLog

type_synonym aws_integration = "aws_call \<Rightarrow> string option"

definition aws_ok :: aws_integration where
  "aws_ok = (\<lambda>c. None)"

text \<open>Statements in sequence: the first call that raises ends the block.\<close>

fun aws_calls :: "aws_integration \<Rightarrow> aws_call list \<Rightarrow> error + unit" where
  "aws_calls aws [] = Inr ()"
| "aws_calls aws (c # cs) =
     (case aws c of Some msg \<Rightarrow> Inl (TelemetryError msg) | None \<Rightarrow> aws_calls aws cs)"

text \<open>
  Both senders wrap their whole body in \<open>try: ... except Exception as e:\<close> and log the
  error in the handler.
\<close>

definition send_to_aws :: "aws_integration \<Rightarrow> event \<Rightarrow> threat \<Rightarrow> error + unit" where
  "send_to_aws aws ev th =
     (case aws_calls aws
             ([SendThreatAlert, SendSecurityMetric]
              @ (if risk_score th \<ge> 8 then [TriggerLambdaResponse] else [])
              @ [CreateLogStream, SendSecurityLog]) of
        Inl e \<Rightarrow> Inr ()
      | Inr u \<Rightarrow> Inr u)"

definition send_event_metrics :: "aws_integration \<Rightarrow> event \<Rightarrow> error + unit" where
  "send_event_metrics aws ev =
     (case aws_calls aws [SendSecurityMetric] of
        Inl e \<Rightarrow> Inr ()
      | Inr u \<Rightarrow> Inr u)"

subsection \<open>analyze_event\<close>

text \<open>
  The step repeated after each rule from the second on:
  \<open>if cand and (not threat_info or cand["risk_score"] > threat_info["risk_score"]):
  threat_info = cand\<close>.
\<close>

definition update_threat_info :: "threat option \<Rightarrow> threat option \<Rightarrow> threat option" where
  "update_threat_info threat_info cand =
     (case cand of
        None \<Rightarrow> threat_info
      | Some c \<Rightarrow>
          (case threat_info of
             None \<Rightarrow> Some c
           | Some t \<Rightarrow> if risk_score c > risk_score t then Some c else Some t))"

text \<open>
  The argument is \<open>None\<close> for Python's \<open>None\<close>. The result pairs the monitor after the
  call with what the call did: it raised (\<open>Inl\<close>) or returned a threat or \<open>None\<close>
  (\<open>Inr\<close>). The monitor is returned in both cases, since a mutation made before an
  exception stays.
\<close>

definition analyze_event ::
  "aws_integration \<Rightarrow> monitor \<Rightarrow> event option \<Rightarrow> monitor \<times> (error + threat option)" where
  "analyze_event aws m evo =
     (case evo of
        None \<Rightarrow> (m, Inr None)
      | Some ev \<Rightarrow>
          if event_is_empty ev then (m, Inr None)
          else
            (case log_event_analysis ev of
               Inl e \<Rightarrow> (m, Inl e)
             | Inr _ \<Rightarrow>
                 let t1 = check_threat_keywords ev;
                     t2 = update_threat_info t1 (check_suspicious_ip ev);
                     t3 = update_threat_info t2 (check_suspicious_user ev);
                     t4 = update_threat_info t3 (check_restricted_resource ev);
                     (m', login_threat) = check_failed_login_pattern m ev;
                     t5 = update_threat_info t4 login_threat;
                     t6 = update_threat_info t5 (check_event_severity ev);
                     t7 = update_threat_info t6 (check_threat_indicators ev)
                 in (case t7 of
                       Some th \<Rightarrow>
                         (case log_threat_detection th ev of
                            Inl e \<Rightarrow> (m', Inl e)
                          | Inr _ \<Rightarrow>
                              (case send_to_aws aws ev th of
                                 Inl e \<Rightarrow> (m', Inl e)
                               | Inr _ \<Rightarrow> (m', Inr (Some th))))
                     | None \<Rightarrow>
                         (case send_event_metrics aws ev of
                            Inl e \<Rightarrow> (m', Inl e)
                          | Inr _ \<Rightarrow> (m', Inr None)))))"

definition reset_monitoring_state :: "monitor \<Rightarrow> monitor" where
  "reset_monitoring_state m = m\<lparr>failed_login_attempts := Map.empty\<rparr>"

text \<open>Feeding a list of events to one monitor, one call after the other.\<close>

fun analyze_events ::
  "aws_integration \<Rightarrow> monitor \<Rightarrow> event list \<Rightarrow> monitor \<times> (error + threat option) list" where
  "analyze_events aws m [] = (m, [])"
| "analyze_events aws m (ev # evs) =
     (let (m', r) = analyze_event aws m (Some ev);
          (m'', rs) = analyze_events aws m' evs
      in (m'', r # rs))"


section \<open>ResponseHandler\<close>

record response_config =
  actions :: "string list"
  priority :: string
  escalation_required :: bool

definition response_actions :: "(string \<times> response_config) list" where
  "response_actions =
     [(''KEYWORD_THREAT'',
         \<lparr>actions = [''quarantine_session'', ''alert_security_team'', ''log_incident''],
          priority = ''high'', escalation_required = True\<rparr>),
      (''MALICIOUS_IP'',
         \<lparr>actions = [''block_ip'', ''terminate_connections'', ''alert_security_team''],
          priority = ''high'', escalation_required = True\<rparr>),
      (''HIGH_RISK_USER'',
         \<lparr>actions = [''suspend_user'', ''audit_user_activity'', ''notify_admin''],
          priority = ''medium'', escalation_required = True\<rparr>),
      (''RESTRICTED_RESOURCE_ACCESS'',
         \<lparr>actions = [''block_access'', ''isolate_resource'', ''alert_security_team''],
          priority = ''high'', escalation_required = True\<rparr>),
      (''BRUTE_FORCE_ATTACK'',
         \<lparr>actions = [''block_ip'', ''lockout_account'', ''increase_monitoring''],
          priority = ''high'', escalation_required = True\<rparr>),
      (''CRITICAL_SECURITY_EVENT'',
         \<lparr>actions = [''emergency_isolation'', ''executive_notification'', ''forensic_imaging''],
          priority = ''critical'', escalation_required = True\<rparr>),
      (''HIGH_RISK_EVENT'',
         \<lparr>actions = [''increase_monitoring'', ''isolate_affected_systems'', ''alert_security_team''],
          priority = ''high'', escalation_required = True\<rparr>),
      (''SUSPICIOUS_ACTIVITY'',
         \<lparr>actions = [''increase_monitoring'', ''log_for_analysis'', ''notify_admin''],
          priority = ''medium'', escalation_required = False\<rparr>),
      (''THREAT_INDICATORS_DETECTED'',
         \<lparr>actions = [''quarantine_system'', ''deep_scan'', ''alert_security_team''],
          priority = ''high'', escalation_required = True\<rparr>)]"

definition get_default_response :: response_config where
  "get_default_response =
     \<lparr>actions = [''log_incident'', ''alert_security_team'', ''increase_monitoring''],
      priority = ''medium'', escalation_required = True\<rparr>"

record response_record =
  rec_timestamp :: string
  rec_threat_type :: string
  rec_event_id :: "string option"
  rec_risk_score :: int
  actions_executed :: "string list"
  rec_priority :: string
  rec_escalation_required :: bool

record handler =
  response_history :: "response_record list"
  active_responses :: "string \<rightharpoonup> string"

definition init_handler :: handler where
  "init_handler = \<lparr>response_history = [], active_responses = Map.empty\<rparr>"

subsection \<open>What the handler prints and logs\<close>

text \<open>
  The handler acts only by printing and logging. Each simulation routine is one
  constructor, with the argument the routine is called with; the random numbers some of
  them print are left out. \<open>SimGeneric\<close> is the fallback lambda of
  \<open>_simulate_action_execution\<close>, which prints that the action was executed.
\<close>

datatype simulation =
    SimIpBlock "string option"
  | SimUserSuspension "string option"
  | SimSessionQuarantine "string option"
  | SimSecurityAlert
  | SimConnectionTermination "string option"
  | SimResourceIsolation "string option"
  | SimAccountLockout "string option"
  | SimMonitoringIncrease "string option"
  | SimEmergencyIsolation
  | SimForensicImaging "string option"
  | SimDeepScan "string option"
  | SimUserAudit "string option"
  | SimIncidentLogging
  | SimAdminNotification
  | SimExecutiveNotification
  | SimGeneric string

datatype effect =
    LoggedInvalid
  | Initiating string int "string option"
  | Executing string
  | Simulated simulation
  | LoggedResponse string
  | Escalated
  | Completed nat

definition action_simulations :: "threat \<Rightarrow> event \<Rightarrow> (string \<times> simulation) list" where
  "action_simulations th ev =
     [(''block_ip'', SimIpBlock (source_ip ev)),
      (''suspend_user'', SimUserSuspension (user_id ev)),
      (''quarantine_session'',
         SimSessionQuarantine
           ((case metadata ev of None \<Rightarrow> Map.empty | Some md \<Rightarrow> md) ''session_id'')),
      (''alert_security_team'', SimSecurityAlert),
      (''terminate_connections'', SimConnectionTermination (source_ip ev)),
      (''isolate_resource'', SimResourceIsolation (resource ev)),
      (''lockout_account'', SimAccountLockout (user_id ev)),
      (''increase_monitoring'', SimMonitoringIncrease (user_id ev)),
      (''emergency_isolation'', SimEmergencyIsolation),
      (''forensic_imaging'', SimForensicImaging (resource ev)),
      (''deep_scan'', SimDeepScan (source_ip ev)),
      (''audit_user_activity'', SimUserAudit (user_id ev)),
      (''log_incident'', SimIncidentLogging),
      (''notify_admin'', SimAdminNotification),
      (''executive_notification'', SimExecutiveNotification)]"

definition simulate_action_execution :: "string \<Rightarrow> threat \<Rightarrow> event \<Rightarrow> simulation" where
  "simulate_action_execution action th ev =
     (case map_of (action_simulations th ev) action of
        None \<Rightarrow> SimGeneric action
      | Some sim \<Rightarrow> sim)"

fun execute_response_actions :: "string list \<Rightarrow> threat \<Rightarrow> event \<Rightarrow> effect list" where
  "execute_response_actions [] th ev = []"
| "execute_response_actions (action # rest) th ev =
     Executing action # Simulated (simulate_action_execution action th ev)
       # execute_response_actions rest th ev"

definition log_response ::
  "handler \<Rightarrow> string \<Rightarrow> threat \<Rightarrow> event \<Rightarrow> response_config \<Rightarrow> handler" where
  "log_response h now th ev cfg =
     h\<lparr>response_history :=
         response_history h @
           [\<lparr>rec_timestamp = now,
             rec_threat_type = threat_type th,
             rec_event_id = event_id ev,
             rec_risk_score = risk_score th,
             actions_executed = actions cfg,
             rec_priority = priority cfg,
             rec_escalation_required = escalation_required cfg\<rparr>]\<rparr>"

subsection \<open>handle_threat\<close>

text \<open>\<open>self.response_actions.get(threat_type, self._get_default_response())\<close>.\<close>

definition resolve_config :: "string \<Rightarrow> response_config" where
  "resolve_config tt =
     (case map_of response_actions tt of None \<Rightarrow> get_default_response | Some cfg \<Rightarrow> cfg)"

text \<open>
  \<open>now\<close> is the clock reading written into the record. The first component of the
  result is the value the Python function returns: it has a bare \<open>return\<close> on the
  early exit and no \<open>return\<close> at its end, so it returns \<open>None\<close> on both paths. The
  remaining components are the handler after the call and what was printed and logged,
  in order.
\<close>

definition handle_threat ::
  "handler \<Rightarrow> string \<Rightarrow> threat option \<Rightarrow> event option \<Rightarrow>
     response_record option \<times> handler \<times> effect list" where
  "handle_threat h now threat_info original_event =
     (case (threat_info, original_event) of
        (None, _) \<Rightarrow> (None, h, [LoggedInvalid])
      | (Some th, None) \<Rightarrow> (None, h, [LoggedInvalid])
      | (Some th, Some ev) \<Rightarrow>
          if event_is_empty ev then (None, h, [LoggedInvalid])
          else
            let cfg = resolve_config (threat_type th);
                h' = log_response h now th ev cfg
            in (None, h',
                [Initiating (threat_type th) (risk_score th) (event_id ev)]
                @ execute_response_actions (actions cfg) th ev
                @ [LoggedResponse (threat_type th)]
                @ (if escalation_required cfg then [Escalated] else [])
                @ [Completed (length (actions cfg))]))"


section \<open>The monitoring loop\<close>

text \<open>
  The body of the loop of \<open>main\<close>, for an event already generated: analyze it and, when
  a threat comes back, hand the threat and the event to the handler.
\<close>

definition process_event ::
  "aws_integration \<Rightarrow> string \<Rightarrow> monitor \<times> handler \<Rightarrow> event \<Rightarrow>
     (monitor \<times> handler) \<times> (error + threat option)" where
  "process_event aws now s ev =
     (case analyze_event aws (fst s) (Some ev) of
        (m', Inl e) \<Rightarrow> ((m', snd s), Inl e)
      | (m', Inr None) \<Rightarrow> ((m', snd s), Inr None)
      | (m', Inr (Some th)) \<Rightarrow>
          (case handle_threat (snd s) now (Some th) (Some ev) of
             (_, h', _) \<Rightarrow> ((m', h'), Inr (Some th))))"

text \<open>
  The web application's loop catches an exception of one round and goes on with the next
  event, so a run over a list of events keeps going after an error.
\<close>

fun process_events ::
  "aws_integration \<Rightarrow> string \<Rightarrow> monitor \<times> handler \<Rightarrow> event list \<Rightarrow> monitor \<times> handler" where
  "process_events aws now s [] = s"
| "process_events aws now s (ev # evs) =
     process_events aws now (fst (process_event aws now s ev)) evs"


section \<open>Notions used to state the properties\<close>

text \<open>The candidates of the seven rules for one event, in the order they are run.\<close>

definition rule_candidates :: "monitor \<Rightarrow> event \<Rightarrow> threat option list" where
  "rule_candidates m ev =
     [check_threat_keywords ev, check_suspicious_ip ev, check_suspicious_user ev,
      check_restricted_resource ev, snd (check_failed_login_pattern m ev),
      check_event_severity ev, check_threat_indicators ev]"

text \<open>None of the six rules other than the failed-login rule fires on the event.\<close>

definition no_other_rule_fires :: "event \<Rightarrow> bool" where
  "no_other_rule_fires ev \<longleftrightarrow>
     check_threat_keywords ev = None \<and> check_suspicious_ip ev = None \<and>
     check_suspicious_user ev = None \<and> check_restricted_resource ev = None \<and>
     check_event_severity ev = None \<and> check_threat_indicators ev = None"

text \<open>A failed login of user \<open>u\<close> from address \<open>ip\<close>.\<close>

definition failed_login_of :: "string \<Rightarrow> string \<Rightarrow> event \<Rightarrow> bool" where
  "failed_login_of u ip ev \<longleftrightarrow>
     event_type ev = Some ''failed_login'' \<and> user_id ev = Some u \<and> source_ip ev = Some ip"

text \<open>The candidate, if there is one, scores below the bound.\<close>

definition scores_below :: "int \<Rightarrow> threat option \<Rightarrow> bool" where
  "scores_below b c = (case c of None \<Rightarrow> True | Some t \<Rightarrow> risk_score t < b)"

text \<open>
  No other rule outscores the 8 of the failed-login rule on the event: none of the four
  rules run before it reaches 8 (on equal scores the earlier candidate stays) and none of
  the two rules run after it exceeds 8.
\<close>

definition no_rule_outscores_brute_force :: "event \<Rightarrow> bool" where
  "no_rule_outscores_brute_force ev \<longleftrightarrow>
     scores_below 8 (check_threat_keywords ev) \<and> scores_below 8 (check_suspicious_ip ev) \<and>
     scores_below 8 (check_suspicious_user ev) \<and> scores_below 8 (check_restricted_resource ev) \<and>
     scores_below 9 (check_event_severity ev) \<and> scores_below 9 (check_threat_indicators ev)"

definition score_in_range :: "int \<Rightarrow> bool" where
  "score_in_range r \<longleftrightarrow> 0 \<le> r \<and> r \<le> 10"


section \<open>Sample inputs\<close>

text \<open>The event of the end-to-end scenario, with exactly the five keys it is given with.\<close>

definition scenario_event :: event where
  "scenario_event =
     empty_event
       \<lparr>event_type := Some ''unauthorized_access'',
        severity := Some ''critical'',
        description := Some ''Unauthorized access attempt to restricted resource'',
        source_ip := Some ''203.0.113.45'',
        resource := Some ''admin_panel''\<rparr>"

text \<open>The same event as the generator would build it, with a user and an event id.\<close>

definition complete_scenario_event :: event where
  "complete_scenario_event =
     scenario_event\<lparr>event_id := Some ''evt_100001'', user_id := Some ''temp_user''\<rparr>"

text \<open>A non-empty event that has a description and nothing else.\<close>

definition description_only_event :: event where
  "description_only_event = empty_event\<lparr>description := Some ''Nightly backup finished''\<rparr>"

text \<open>
  A failed login as the generator builds it from its \<open>failed_login\<close> template, with an
  address and a user of its suspicious pools.
\<close>

definition generated_failed_login :: event where
  "generated_failed_login =
     \<lparr>timestamp = Some ''2025-01-01T00:00:00'',
      event_id = Some ''evt_123456'',
      event_type = Some ''failed_login'',
      severity = Some ''warning'',
      description = Some ''Multiple failed login attempts detected'',
      source_ip = Some ''198.51.100.23'',
      user_id = Some ''test_account'',
      resource = Some ''authentication_service'',
      threat_indicators = Some [''brute_force'', ''suspicious_ip''],
      metadata = Some [''region'' \<mapsto> ''us-east-1'', ''service_version'' \<mapsto> ''v1.0'',
                       ''session_id'' \<mapsto> ''sess_1000'']\<rparr>"

text \<open>A failed login on which no rule but the failed-login rule can fire.\<close>

definition plain_failed_login :: event where
  "plain_failed_login =
     \<lparr>timestamp = Some ''2025-01-01T00:00:00'',
      event_id = Some ''evt_222222'',
      event_type = Some ''failed_login'',
      severity = Some ''warning'',
      description = Some ''Login rejected'',
      source_ip = Some ''10.0.0.5'',
      user_id = Some ''user001'',
      resource = Some ''authentication_service'',
      threat_indicators = None,
      metadata = None\<rparr>"

text \<open>
  A failed login of the same user from the same address on which three other rules fire,
  none with a score that beats 8: a suspicious keyword (6), high severity (7) and one
  threat indicator (7).
\<close>

definition busy_failed_login :: event where
  "busy_failed_login =
     plain_failed_login
       \<lparr>severity := Some ''high'',
        description := Some ''Suspicious login rejected'',
        threat_indicators := Some [''brute_force'']\<rparr>"

text \<open>A threat of a type the handler has no entry for, and one with a score of 42.\<close>

definition unknown_threat :: threat where
  "unknown_threat =
     \<lparr>threat_type = ''ZERO_DAY'', threat_description = ''Unclassified'',
      risk_score = 5, detection_method = ''manual''\<rparr>"

definition oversized_threat :: threat where
  "oversized_threat =
     \<lparr>threat_type = ''KEYWORD_THREAT'', threat_description = ''Injected by a caller'',
      risk_score = 42, detection_method = ''manual''\<rparr>"

text \<open>A collaborator whose every call raises.\<close>

definition aws_down :: aws_integration where
  "aws_down = (\<lambda>c. Some ''EndpointConnectionError'')"

section \<open>Telemetry cannot fail an analysis\<close>

lemma send_to_aws_returns: "send_to_aws aws ev th = Inr ()"
  by (simp add: send_to_aws_def split: sum.splits)

lemma send_event_metrics_returns: "send_event_metrics aws ev = Inr ()"
  by (simp add: send_event_metrics_def split: sum.splits)

text \<open>
  Claim C8. Whatever the calls into the AWS integration do, raise or return,
  \<open>analyze_event\<close> gives the same monitor and the same result (a threat, none, or the
  same \<open>KeyError\<close>) as with a collaborator whose calls all return, and it never raises
  an exception that came from the collaborator. The exceptions covered are those
  \<open>except Exception\<close> catches.
\<close>

theorem telemetry_failure_is_swallowed:
  "analyze_event aws m evo = analyze_event aws_ok m evo \<and>
   (\<forall>msg. snd (analyze_event aws m evo) \<noteq> Inl (TelemetryError msg))"
  by (auto simp: analyze_event_def send_to_aws_returns send_event_metrics_returns
      log_event_analysis_def log_threat_detection_def Let_def
      split: option.splits sum.splits prod.splits if_splits)

theorem telemetry_failure_is_swallowed_witness:
  "analyze_event aws_down init_monitor (Some complete_scenario_event) =
     analyze_event aws_ok init_monitor (Some complete_scenario_event) \<and>
   snd (analyze_event aws_down init_monitor (Some complete_scenario_event)) \<noteq>
     Inl (TelemetryError ''EndpointConnectionError'')"
  using telemetry_failure_is_swallowed [of aws_down init_monitor "Some complete_scenario_event"]
  by blast


section \<open>The threat-indicator rule\<close>

text \<open>
  Claim C5. The threat-indicator rule yields no candidate when \<open>threat_indicators\<close> is
  missing or empty. Otherwise it yields a candidate whose score is
  \<open>min 10 (5 + 2 * count)\<close>, \<open>count\<close> being the number of indicators: 7 for one
  indicator, 10 for three, 10 for ten.
\<close>

theorem threat_indicator_score:
  "(threat_indicators ev = None \<or> threat_indicators ev = Some [] \<longrightarrow>
      check_threat_indicators ev = None) \<and>
   (threat_indicators ev = Some xs \<and> xs \<noteq> [] \<longrightarrow>
      (\<exists>t. check_threat_indicators ev = Some t \<and>
           threat_type t = ''THREAT_INDICATORS_DETECTED'' \<and>
           risk_score t = min 10 (5 + 2 * int (length xs)) \<and>
           (length xs = 1 \<longrightarrow> risk_score t = 7) \<and>
           (length xs = 3 \<longrightarrow> risk_score t = 10) \<and>
           (length xs = 10 \<longrightarrow> risk_score t = 10)))"
  by (auto simp: check_threat_indicators_def Let_def)

theorem threat_indicator_score_witness:
  "check_threat_indicators empty_event = None \<and>
   (\<exists>t. check_threat_indicators
          (empty_event\<lparr>threat_indicators := Some [''malware'', ''code_injection'', ''c2'']\<rparr>)
        = Some t \<and> risk_score t = 10)"
  using threat_indicator_score [of empty_event "[]"]
    threat_indicator_score
      [of "empty_event\<lparr>threat_indicators := Some [''malware'', ''code_injection'', ''c2'']\<rparr>"
          "[''malware'', ''code_injection'', ''c2'']"]
  by (auto simp: empty_event_def)


section \<open>The response handler\<close>

text \<open>
  Claim C7. When the threat or the event argument is \<open>None\<close>, \<open>handle_threat\<close> returns
  \<open>None\<close>, leaves the handler as it was (no record is appended) and does nothing but log
  the error: no action is executed and no escalation runs.
\<close>

theorem handle_threat_fails_fast:
  "threat_info = None \<or> original_event = None \<Longrightarrow>
   handle_threat h now threat_info original_event = (None, h, [LoggedInvalid])"
  by (auto simp: handle_threat_def split: option.splits)

theorem handle_threat_fails_fast_witness:
  "handle_threat init_handler ''2025-01-01T00:00:00'' (Some unknown_threat) None =
     (None, init_handler, [LoggedInvalid]) \<and>
   handle_threat init_handler ''2025-01-01T00:00:00'' None (Some plain_failed_login) =
     (None, init_handler, [LoggedInvalid])"
  using handle_threat_fails_fast [of "Some unknown_threat" None init_handler]
    handle_threat_fails_fast [of None "Some plain_failed_login" init_handler]
  by simp

lemma configured_threat_types:
  "map fst response_actions =
     [''KEYWORD_THREAT'', ''MALICIOUS_IP'', ''HIGH_RISK_USER'', ''RESTRICTED_RESOURCE_ACCESS'',
      ''BRUTE_FORCE_ATTACK'', ''CRITICAL_SECURITY_EVENT'', ''HIGH_RISK_EVENT'',
      ''SUSPICIOUS_ACTIVITY'', ''THREAT_INDICATORS_DETECTED'']"
  by (simp add: response_actions_def)

lemma dedicated_simulation_routines:
  "map fst (action_simulations th ev) =
     [''block_ip'', ''suspend_user'', ''quarantine_session'', ''alert_security_team'',
      ''terminate_connections'', ''isolate_resource'', ''lockout_account'',
      ''increase_monitoring'', ''emergency_isolation'', ''forensic_imaging'', ''deep_scan'',
      ''audit_user_activity'', ''log_incident'', ''notify_admin'', ''executive_notification'']"
  by (simp add: action_simulations_def)

lemma map_of_response_actions_None:
  "tt \<notin> set (map fst response_actions) \<Longrightarrow> map_of response_actions tt = None"
  by (simp add: map_of_eq_None_iff)

lemma execute_response_actions_length:
  "length (execute_response_actions as th ev) = 2 * length as"
  by (induction as) simp_all

text \<open>
  Claim C6. For a threat whose type is not one of the nine keys of \<open>response_actions\<close>,
  the entry used is the default one: actions \<open>log_incident\<close>, \<open>alert_security_team\<close>,
  \<open>increase_monitoring\<close>, priority \<open>medium\<close>, escalation required; with a non-empty
  event the call runs to its last statement, executing these three actions, appending
  the record and escalating. An action tag that is not a key of the table of simulation
  routines runs the generic stub, and every list of action tags is executed to its end.
\<close>

theorem unknown_type_default_policy_generic_stub:
  "(threat_type th \<notin> set (map fst response_actions) \<longrightarrow>
      resolve_config (threat_type th) =
        \<lparr>actions = [''log_incident'', ''alert_security_team'', ''increase_monitoring''],
         priority = ''medium'', escalation_required = True\<rparr> \<and>
      (\<not> event_is_empty ev \<longrightarrow>
         handle_threat h now (Some th) (Some ev) =
           (None,
            h\<lparr>response_history := response_history h @
                [\<lparr>rec_timestamp = now, rec_threat_type = threat_type th,
                  rec_event_id = event_id ev, rec_risk_score = risk_score th,
                  actions_executed =
                    [''log_incident'', ''alert_security_team'', ''increase_monitoring''],
                  rec_priority = ''medium'', rec_escalation_required = True\<rparr>]\<rparr>,
            [Initiating (threat_type th) (risk_score th) (event_id ev),
             Executing ''log_incident'', Simulated SimIncidentLogging,
             Executing ''alert_security_team'', Simulated SimSecurityAlert,
             Executing ''increase_monitoring'', Simulated (SimMonitoringIncrease (user_id ev)),
             LoggedResponse (threat_type th), Escalated, Completed 3])))
   \<and> (a \<notin> set (map fst (action_simulations th ev)) \<longrightarrow>
        simulate_action_execution a th ev = SimGeneric a)
   \<and> length (execute_response_actions as th ev) = 2 * length as"
proof -
  have default: "resolve_config (threat_type th) = get_default_response"
    if "threat_type th \<notin> set (map fst response_actions)"
    using map_of_response_actions_None [OF that] by (simp add: resolve_config_def)
  have sims: "execute_response_actions (actions get_default_response) th ev =
      [Executing ''log_incident'', Simulated SimIncidentLogging,
       Executing ''alert_security_team'', Simulated SimSecurityAlert,
       Executing ''increase_monitoring'', Simulated (SimMonitoringIncrease (user_id ev))]"
    by (simp add: get_default_response_def simulate_action_execution_def action_simulations_def)
  have run: "handle_threat h now (Some th) (Some ev) =
      (None,
       h\<lparr>response_history := response_history h @
           [\<lparr>rec_timestamp = now, rec_threat_type = threat_type th,
             rec_event_id = event_id ev, rec_risk_score = risk_score th,
             actions_executed =
               [''log_incident'', ''alert_security_team'', ''increase_monitoring''],
             rec_priority = ''medium'', rec_escalation_required = True\<rparr>]\<rparr>,
       [Initiating (threat_type th) (risk_score th) (event_id ev),
        Executing ''log_incident'', Simulated SimIncidentLogging,
        Executing ''alert_security_team'', Simulated SimSecurityAlert,
        Executing ''increase_monitoring'', Simulated (SimMonitoringIncrease (user_id ev)),
        LoggedResponse (threat_type th), Escalated, Completed 3])"
    if unknown: "threat_type th \<notin> set (map fst response_actions)"
      and nonempty: "\<not> event_is_empty ev"
  proof -
    have "handle_threat h now (Some th) (Some ev) =
        (None, log_response h now th ev get_default_response,
         [Initiating (threat_type th) (risk_score th) (event_id ev)]
         @ execute_response_actions (actions get_default_response) th ev
         @ [LoggedResponse (threat_type th)]
         @ (if escalation_required get_default_response then [Escalated] else [])
         @ [Completed (length (actions get_default_response))])"
      using nonempty by (simp add: handle_threat_def default [OF unknown] Let_def)
    then show ?thesis
      unfolding sims by (simp add: log_response_def get_default_response_def)
  qed
  have stub: "simulate_action_execution a th ev = SimGeneric a"
    if "a \<notin> set (map fst (action_simulations th ev))"
  proof -
    from that have "map_of (action_simulations th ev) a = None"
      by (simp add: map_of_eq_None_iff)
    then show ?thesis by (simp add: simulate_action_execution_def)
  qed
  show ?thesis
    using default run stub execute_response_actions_length [of as th ev]
    by (simp add: get_default_response_def)
qed

theorem unknown_type_default_policy_generic_stub_witness:
  "''ZERO_DAY'' \<notin> set (map fst response_actions) \<and>
   \<not> event_is_empty plain_failed_login \<and>
   ''block_access'' \<notin> set (map fst (action_simulations unknown_threat plain_failed_login)) \<and>
   resolve_config ''ZERO_DAY'' =
     \<lparr>actions = [''log_incident'', ''alert_security_team'', ''increase_monitoring''],
      priority = ''medium'', escalation_required = True\<rparr> \<and>
   snd (snd (handle_threat init_handler ''2025-01-01T00:00:00''
               (Some unknown_threat) (Some plain_failed_login))) =
     [Initiating ''ZERO_DAY'' 5 (Some ''evt_222222''),
      Executing ''log_incident'', Simulated SimIncidentLogging,
      Executing ''alert_security_team'', Simulated SimSecurityAlert,
      Executing ''increase_monitoring'', Simulated (SimMonitoringIncrease (Some ''user001'')),
      LoggedResponse ''ZERO_DAY'', Escalated, Completed 3] \<and>
   simulate_action_execution ''block_access'' unknown_threat plain_failed_login =
     SimGeneric ''block_access''"
proof -
  have unknown: "threat_type unknown_threat \<notin> set (map fst response_actions)"
    by (simp add: unknown_threat_def response_actions_def)
  have nonempty: "\<not> event_is_empty plain_failed_login"
    by (simp add: event_is_empty_def plain_failed_login_def)
  have no_routine:
    "''block_access'' \<notin> set (map fst (action_simulations unknown_threat plain_failed_login))"
    by (simp add: action_simulations_def)
  show ?thesis
    using unknown nonempty no_routine
      unknown_type_default_policy_generic_stub
        [of unknown_threat plain_failed_login init_handler "''2025-01-01T00:00:00''"
            "''block_access''" "[]"]
    by (simp add: unknown_threat_def plain_failed_login_def)
qed

text \<open>
  Claim C3, as stated, fails: \<open>handle_threat\<close> returns \<open>None\<close> for a threat and a
  non-empty event too, not a record.
\<close>

theorem handle_threat_returns_no_record:
  "fst (handle_threat init_handler ''2025-01-01T00:00:00''
          (Some unknown_threat) (Some plain_failed_login)) = None"
  by (simp add: handle_threat_def event_is_empty_def plain_failed_login_def Let_def)

text \<open>
  Claim C3, amended. For every threat, whatever its type, and every non-empty event,
  \<open>handle_threat\<close> returns \<open>None\<close>, appends exactly one record to the history, whose
  \<open>actions_executed\<close> is the action list of the entry the threat type resolves to (so of
  the same length), and the last thing it reports is the number of that entry's actions
  (the separator line printed after it is part of that last report).
\<close>

theorem handle_threat_appends_record:
  assumes "\<not> event_is_empty ev"
    and "handle_threat h now (Some th) (Some ev) = (ret, h', out)"
  shows "ret = None \<and>
         (\<exists>r. response_history h' = response_history h @ [r] \<and>
              rec_threat_type r = threat_type th \<and>
              actions_executed r = actions (resolve_config (threat_type th)) \<and>
              length (actions_executed r) = length (actions (resolve_config (threat_type th)))) \<and>
         last out = Completed (length (actions (resolve_config (threat_type th))))"
  using assms by (auto simp: handle_threat_def Let_def log_response_def)

theorem handle_threat_appends_record_witness:
  "\<not> event_is_empty plain_failed_login \<and>
   (\<exists>r. response_history
           (fst (snd (handle_threat init_handler ''2025-01-01T00:00:00''
                        (Some oversized_threat) (Some plain_failed_login)))) = [r] \<and>
        actions_executed r = [''quarantine_session'', ''alert_security_team'', ''log_incident'']) \<and>
   last (snd (snd (handle_threat init_handler ''2025-01-01T00:00:00''
                     (Some oversized_threat) (Some plain_failed_login)))) = Completed 3"
proof -
  have nonempty: "\<not> event_is_empty plain_failed_login"
    by (simp add: event_is_empty_def plain_failed_login_def)
  have cfg: "actions (resolve_config (threat_type oversized_threat)) =
      [''quarantine_session'', ''alert_security_team'', ''log_incident'']"
    by (simp add: resolve_config_def oversized_threat_def response_actions_def)
  obtain ret h' out where run:
    "handle_threat init_handler ''2025-01-01T00:00:00''
       (Some oversized_threat) (Some plain_failed_login) = (ret, h', out)"
    by (cases "handle_threat init_handler ''2025-01-01T00:00:00''
       (Some oversized_threat) (Some plain_failed_login)") auto
  have fresh: "response_history init_handler = []"
    by (simp add: init_handler_def)
  show ?thesis
    using handle_threat_appends_record [OF nonempty run] nonempty
    by (auto simp: run cfg fresh)
qed


section \<open>What each rule scores\<close>

lemma check_threat_keywords_score:
  "check_threat_keywords ev = Some t \<Longrightarrow> risk_score t = 9 \<or> risk_score t = 6"
  by (auto simp: check_threat_keywords_def Let_def split: option.splits)

lemma check_suspicious_ip_score: "check_suspicious_ip ev = Some t \<Longrightarrow> risk_score t = 8"
  by (auto simp: check_suspicious_ip_def split: option.splits if_splits)

lemma check_suspicious_user_score: "check_suspicious_user ev = Some t \<Longrightarrow> risk_score t = 7"
  by (auto simp: check_suspicious_user_def split: option.splits if_splits)

lemma check_restricted_resource_score:
  "check_restricted_resource ev = Some t \<Longrightarrow> risk_score t = 7"
  by (auto simp: check_restricted_resource_def split: option.splits if_splits)

lemma check_failed_login_pattern_score:
  "snd (check_failed_login_pattern m ev) = Some t \<Longrightarrow> risk_score t = 8"
  by (auto simp: check_failed_login_pattern_def brute_force_threat_def Let_def split: if_splits)

lemma check_event_severity_score:
  "check_event_severity ev = Some t \<Longrightarrow> risk_score t = 9 \<or> risk_score t = 7"
  by (auto simp: check_event_severity_def Let_def split: if_splits)

lemma check_threat_indicators_score:
  "check_threat_indicators ev = Some t \<Longrightarrow> 7 \<le> risk_score t \<and> risk_score t \<le> 10"
  by (cases "case threat_indicators ev of None \<Rightarrow> [] | Some xs \<Rightarrow> xs")
    (auto simp: check_threat_indicators_def Let_def split: if_splits)

lemma rule_candidates_in_range:
  assumes "Some t \<in> set (rule_candidates m ev)"
  shows "score_in_range (risk_score t)"
  using assms check_threat_keywords_score [of ev t] check_suspicious_ip_score [of ev t]
    check_suspicious_user_score [of ev t] check_restricted_resource_score [of ev t]
    check_failed_login_pattern_score [of m ev t] check_event_severity_score [of ev t]
    check_threat_indicators_score [of ev t]
  by (auto simp: rule_candidates_def score_in_range_def)


section \<open>Which candidate is returned\<close>

text \<open>
  After the print helper has run, \<open>analyze_event\<close> folds the seven candidates with
  \<open>update_threat_info\<close>, starting from none. The fold returns the first candidate of
  maximal score: no candidate scores higher and every earlier one scores strictly lower.
\<close>

lemma update_threat_info_None [simp]: "update_threat_info None c = c"
  by (simp add: update_threat_info_def split: option.splits)

lemma update_threat_info_no_candidate [simp]: "update_threat_info a None = a"
  by (simp add: update_threat_info_def)

lemma update_threat_info_both:
  "update_threat_info (Some s) (Some c) = (if risk_score c > risk_score s then Some c else Some s)"
  by (simp add: update_threat_info_def)

lemma foldl_update_threat_info_snoc:
  "foldl update_threat_info acc (cs @ [c]) = update_threat_info (foldl update_threat_info acc cs) c"
  by simp

lemma foldl_update_threat_info_eq_None:
  "foldl update_threat_info acc cs = None \<longleftrightarrow> acc = None \<and> (\<forall>c\<in>set cs. c = None)"
  by (induction cs arbitrary: acc) (auto simp: update_threat_info_def split: option.splits)

lemma foldl_update_threat_info_first_max:
  "foldl update_threat_info None cs = Some t \<Longrightarrow>
   \<exists>i<length cs. cs ! i = Some t \<and>
     (\<forall>j<length cs. \<forall>c. cs ! j = Some c \<longrightarrow>
        risk_score c \<le> risk_score t \<and> (j < i \<longrightarrow> risk_score c < risk_score t))"
proof (induction cs arbitrary: t rule: rev_induct)
  case Nil
  then show ?case by simp
next
  case (snoc x xs)
  show ?case
  proof (cases x)
    case None
    with snoc.prems have "foldl update_threat_info None xs = Some t"
      by simp
    from snoc.IH [OF this] obtain i where i: "i < length xs" "xs ! i = Some t"
      "\<forall>j<length xs. \<forall>c. xs ! j = Some c \<longrightarrow>
        risk_score c \<le> risk_score t \<and> (j < i \<longrightarrow> risk_score c < risk_score t)"
      by blast
    show ?thesis
    proof (intro exI [of _ i] conjI allI impI)
      show "i < length (xs @ [x])" using i(1) by simp
      show "(xs @ [x]) ! i = Some t" using i(1,2) by (simp add: nth_append)
    next
      fix j c assume "j < length (xs @ [x])" "(xs @ [x]) ! j = Some c"
      then have "j < length xs \<and> xs ! j = Some c"
        using None by (cases "j < length xs") (auto simp: nth_append)
      then show "risk_score c \<le> risk_score t" using i(3) by blast
    next
      fix j c assume "j < length (xs @ [x])" "(xs @ [x]) ! j = Some c" "j < i"
      then have "j < length xs \<and> xs ! j = Some c"
        using None by (cases "j < length xs") (auto simp: nth_append)
      then show "risk_score c < risk_score t" using i(3) \<open>j < i\<close> by blast
    qed
  next
    case (Some c)
    show ?thesis
    proof (cases "foldl update_threat_info None xs")
      case None
      then have "\<forall>y\<in>set xs. y = None"
        by (simp add: foldl_update_threat_info_eq_None)
      then have all_none: "xs ! j = None" if "j < length xs" for j
        using that nth_mem by blast
      from snoc.prems None Some have t: "t = c" by simp
      show ?thesis
      proof (intro exI [of _ "length xs"] conjI allI impI)
        show "length xs < length (xs @ [x])" by simp
        show "(xs @ [x]) ! length xs = Some t" using Some t by simp
      next
        fix j d assume j: "j < length (xs @ [x])" "(xs @ [x]) ! j = Some d"
        show "risk_score d \<le> risk_score t"
        proof (cases "j < length xs")
          case True
          with j all_none [of j] show ?thesis by (auto simp: nth_append)
        next
          case False
          with j have "j = length xs" by simp
          with j Some t show ?thesis by simp
        qed
      next
        fix j d assume j: "j < length (xs @ [x])" "(xs @ [x]) ! j = Some d" "j < length xs"
        with all_none [of j] show "risk_score d < risk_score t" by (auto simp: nth_append)
      qed
    next
      case old: (Some s)
      from snoc.IH [OF old] obtain i where i: "i < length xs" "xs ! i = Some s"
        "\<forall>j<length xs. \<forall>d. xs ! j = Some d \<longrightarrow>
          risk_score d \<le> risk_score s \<and> (j < i \<longrightarrow> risk_score d < risk_score s)"
        by blast
      show ?thesis
      proof (cases "risk_score c > risk_score s")
        case True
        with snoc.prems old Some have t: "t = c" by (simp add: update_threat_info_both)
        show ?thesis
        proof (intro exI [of _ "length xs"] conjI allI impI)
          show "length xs < length (xs @ [x])" by simp
          show "(xs @ [x]) ! length xs = Some t" using Some t by simp
        next
          fix j d assume j: "j < length (xs @ [x])" "(xs @ [x]) ! j = Some d"
          show "risk_score d \<le> risk_score t"
          proof (cases "j < length xs")
            case jl: True
            with j have "xs ! j = Some d" by (simp add: nth_append)
            with i(3) jl have "risk_score d \<le> risk_score s" by blast
            with True t show ?thesis by simp
          next
            case False
            with j have "j = length xs" by simp
            with j Some t show ?thesis by simp
          qed
        next
          fix j d assume j: "j < length (xs @ [x])" "(xs @ [x]) ! j = Some d" "j < length xs"
          then have "xs ! j = Some d" by (simp add: nth_append)
          with i(3) j(3) have "risk_score d \<le> risk_score s" by blast
          with True t show "risk_score d < risk_score t" by simp
        qed
      next
        case False
        with snoc.prems old Some have t: "t = s" by (simp add: update_threat_info_both)
        show ?thesis
        proof (intro exI [of _ i] conjI allI impI)
          show "i < length (xs @ [x])" using i(1) by simp
          show "(xs @ [x]) ! i = Some t" using i(1,2) t by (simp add: nth_append)
        next
          fix j d assume j: "j < length (xs @ [x])" "(xs @ [x]) ! j = Some d"
          show "risk_score d \<le> risk_score t"
          proof (cases "j < length xs")
            case jl: True
            with j have "xs ! j = Some d" by (simp add: nth_append)
            with i(3) jl t show ?thesis by blast
          next
            case jl: False
            with j have "j = length xs" by simp
            with j Some have "d = c" by simp
            with False t show ?thesis by simp
          qed
        next
          fix j d assume j: "j < length (xs @ [x])" "(xs @ [x]) ! j = Some d" "j < i"
          with i(1) have "xs ! j = Some d" and "j < length xs" by (simp_all add: nth_append)
          with i(3) j(3) t show "risk_score d < risk_score t" by blast
        qed
      qed
    qed
  qed
qed

lemma analyze_event_unfold:
  assumes "\<not> event_is_empty ev" and "log_event_analysis ev = Inr ()"
  shows "analyze_event aws m (Some ev) =
     (fst (check_failed_login_pattern m ev),
      case foldl update_threat_info None (rule_candidates m ev) of
        None \<Rightarrow> Inr None
      | Some th \<Rightarrow>
          (case log_threat_detection th ev of Inl e \<Rightarrow> Inl e | Inr _ \<Rightarrow> Inr (Some th)))"
  using assms
  by (simp add: analyze_event_def rule_candidates_def Let_def split_beta
      send_to_aws_returns send_event_metrics_returns
      split: option.splits sum.splits)

lemma log_event_analysis_complete:
  "event_type ev \<noteq> None \<Longrightarrow> user_id ev \<noteq> None \<Longrightarrow> source_ip ev \<noteq> None \<Longrightarrow>
   log_event_analysis ev = Inr ()"
  by (simp add: log_event_analysis_def)

lemma log_threat_detection_complete:
  "event_id ev \<noteq> None \<Longrightarrow> user_id ev \<noteq> None \<Longrightarrow> source_ip ev \<noteq> None \<Longrightarrow>
   resource ev \<noteq> None \<Longrightarrow> log_threat_detection th ev = Inr ()"
  by (simp add: log_threat_detection_def)

lemma analyze_event_result_is_candidate:
  assumes "snd (analyze_event aws m (Some ev)) = Inr (Some t)"
  shows "Some t \<in> set (rule_candidates m ev)"
proof -
  from assms have nonempty: "\<not> event_is_empty ev"
    by (auto simp: analyze_event_def)
  from assms nonempty have logged: "log_event_analysis ev = Inr ()"
    by (cases "log_event_analysis ev") (auto simp: analyze_event_def)
  from assms have "foldl update_threat_info None (rule_candidates m ev) = Some t"
    unfolding analyze_event_unfold [OF nonempty logged]
    by (auto split: option.splits sum.splits)
  from foldl_update_threat_info_first_max [OF this] show ?thesis
    using nth_mem by metis
qed

lemma analyze_event_selects_first_maximal:
  assumes "event_type ev \<noteq> None" and "user_id ev \<noteq> None" and "source_ip ev \<noteq> None"
    and "event_id ev \<noteq> None" and "resource ev \<noteq> None"
  shows "((\<forall>c\<in>set (rule_candidates m ev). c = None) \<longrightarrow>
            snd (analyze_event aws m (Some ev)) = Inr None) \<and>
         ((\<exists>c\<in>set (rule_candidates m ev). c \<noteq> None) \<longrightarrow>
            (\<exists>t i. snd (analyze_event aws m (Some ev)) = Inr (Some t) \<and>
               i < length (rule_candidates m ev) \<and> rule_candidates m ev ! i = Some t \<and>
               (\<forall>j<length (rule_candidates m ev). \<forall>c. rule_candidates m ev ! j = Some c \<longrightarrow>
                  risk_score c \<le> risk_score t \<and> (j < i \<longrightarrow> risk_score c < risk_score t))))"
proof -
  from assms(1) have nonempty: "\<not> event_is_empty ev"
    by (auto simp: event_is_empty_def)
  note logged = log_event_analysis_complete [OF assms(1,2,3)]
  note unfold = analyze_event_unfold [OF nonempty logged, of aws m]
  let ?sel = "foldl update_threat_info None (rule_candidates m ev)"
  have none: "snd (analyze_event aws m (Some ev)) = Inr None"
    if "\<forall>c\<in>set (rule_candidates m ev). c = None"
  proof -
    from that have "?sel = None" by (simp add: foldl_update_threat_info_eq_None)
    then show ?thesis by (simp add: unfold)
  qed
  have some: "\<exists>t i. snd (analyze_event aws m (Some ev)) = Inr (Some t) \<and>
               i < length (rule_candidates m ev) \<and> rule_candidates m ev ! i = Some t \<and>
               (\<forall>j<length (rule_candidates m ev). \<forall>c. rule_candidates m ev ! j = Some c \<longrightarrow>
                  risk_score c \<le> risk_score t \<and> (j < i \<longrightarrow> risk_score c < risk_score t))"
    if "\<exists>c\<in>set (rule_candidates m ev). c \<noteq> None"
  proof -
    from that have "?sel \<noteq> None" by (simp add: foldl_update_threat_info_eq_None)
    then obtain t where t: "?sel = Some t" by blast
    have "snd (analyze_event aws m (Some ev)) = Inr (Some t)"
      by (simp add: unfold t log_threat_detection_complete [OF assms(4,2,3,5)])
    with foldl_update_threat_info_first_max [OF t] show ?thesis by blast
  qed
  from none some show ?thesis by blast
qed

lemma analyze_event_counter_frame:
  "(event_type ev \<noteq> Some ''failed_login'' \<longrightarrow> fst (analyze_event aws m (Some ev)) = m) \<and>
   (event_type ev = Some ''failed_login'' \<and> user_id ev \<noteq> None \<and> source_ip ev \<noteq> None \<longrightarrow>
      fst (analyze_event aws m (Some ev)) =
        m\<lparr>failed_login_attempts := (failed_login_attempts m)
             (login_key ev \<mapsto>
                (case failed_login_attempts m (login_key ev) of None \<Rightarrow> 0 | Some c \<Rightarrow> c) + 1)\<rparr>)"
proof -
  have other: "fst (analyze_event aws m (Some ev)) = m"
    if "event_type ev \<noteq> Some ''failed_login''"
  proof (cases "\<not> event_is_empty ev \<and> log_event_analysis ev = Inr ()")
    case True
    then show ?thesis
      using that by (simp add: analyze_event_unfold check_failed_login_pattern_def)
  next
    case False
    then show ?thesis
      by (cases "log_event_analysis ev") (auto simp: analyze_event_def)
  qed
  have login: "fst (analyze_event aws m (Some ev)) =
        m\<lparr>failed_login_attempts := (failed_login_attempts m)
             (login_key ev \<mapsto>
                (case failed_login_attempts m (login_key ev) of None \<Rightarrow> 0 | Some c \<Rightarrow> c) + 1)\<rparr>"
    if "event_type ev = Some ''failed_login''" "user_id ev \<noteq> None" "source_ip ev \<noteq> None"
  proof -
    from that(1) have nonempty: "\<not> event_is_empty ev" by (auto simp: event_is_empty_def)
    from that have logged: "log_event_analysis ev = Inr ()"
      by (simp add: log_event_analysis_def)
    show ?thesis
      using that(1)
      by (simp add: analyze_event_unfold [OF nonempty logged] check_failed_login_pattern_def Let_def)
  qed
  from other login show ?thesis by blast
qed

lemma analyze_event_in_range:
  assumes "snd (analyze_event aws m evo) = Inr (Some t)"
  shows "score_in_range (risk_score t)"
proof (cases evo)
  case None
  with assms show ?thesis by (simp add: analyze_event_def)
next
  case (Some ev)
  with assms show ?thesis
    using analyze_event_result_is_candidate rule_candidates_in_range by blast
qed

lemma handle_threat_history:
  "response_history (fst (snd (handle_threat h now (Some th) (Some ev)))) =
     (if event_is_empty ev then response_history h
      else response_history h @
        [\<lparr>rec_timestamp = now, rec_threat_type = threat_type th, rec_event_id = event_id ev,
          rec_risk_score = risk_score th,
          actions_executed = actions (resolve_config (threat_type th)),
          rec_priority = priority (resolve_config (threat_type th)),
          rec_escalation_required = escalation_required (resolve_config (threat_type th))\<rparr>])"
  by (simp add: handle_threat_def log_response_def Let_def)

lemma process_event_history_in_range:
  assumes "\<forall>r\<in>set (response_history (snd s)). score_in_range (rec_risk_score r)"
  shows "\<forall>r\<in>set (response_history (snd (fst (process_event aws now s ev)))).
           score_in_range (rec_risk_score r)"
proof (cases "analyze_event aws (fst s) (Some ev)")
  case (Pair m' res)
  show ?thesis
  proof (cases res)
    case (Inl e)
    with Pair assms show ?thesis by (simp add: process_event_def)
  next
    case (Inr found)
    show ?thesis
    proof (cases found)
      case None
      with Pair Inr assms show ?thesis by (simp add: process_event_def)
    next
      case (Some th)
      with Pair Inr have "snd (analyze_event aws (fst s) (Some ev)) = Inr (Some th)" by simp
      then have range: "score_in_range (risk_score th)" by (rule analyze_event_in_range)
      have "snd (fst (process_event aws now s ev)) =
          fst (snd (handle_threat (snd s) now (Some th) (Some ev)))"
        using Pair Inr Some by (simp add: process_event_def split: prod.splits)
      with assms range show ?thesis by (auto simp: handle_threat_history)
    qed
  qed
qed

lemma process_events_history_in_range:
  assumes "\<forall>r\<in>set (response_history (snd s)). score_in_range (rec_risk_score r)"
  shows "\<forall>r\<in>set (response_history (snd (process_events aws now s evs))).
           score_in_range (rec_risk_score r)"
  using assms
proof (induction evs arbitrary: s)
  case Nil
  then show ?case by simp
next
  case (Cons ev evs)
  from process_event_history_in_range [OF Cons.prems]
  have "\<forall>r\<in>set (response_history (snd (fst (process_event aws now s ev)))).
           score_in_range (rec_risk_score r)" .
  from Cons.IH [OF this] show ?case by simp
qed

lemma analyze_event_raises_only_KeyError:
  assumes "snd (analyze_event aws m evo) = Inl e"
  shows "e \<in> KeyError ` {''event_type'', ''user_id'', ''source_ip'', ''event_id'', ''resource''}"
proof (cases evo)
  case None
  with assms show ?thesis by (simp add: analyze_event_def)
next
  case (Some ev)
  from assms Some have nonempty: "\<not> event_is_empty ev"
    by (auto simp: analyze_event_def)
  show ?thesis
  proof (cases "log_event_analysis ev")
    case (Inl e')
    with assms Some nonempty have "e = e'" by (simp add: analyze_event_def)
    with Inl show ?thesis by (auto simp: log_event_analysis_def split: if_splits)
  next
    case (Inr u)
    then have logged: "log_event_analysis ev = Inr ()" by simp
    from assms Some obtain th where "log_threat_detection th ev = Inl e"
      unfolding Some analyze_event_unfold [OF nonempty logged]
      by (auto split: option.splits sum.splits)
    then show ?thesis by (auto simp: log_threat_detection_def split: if_splits)
  qed
qed

lemma analyze_event_short_circuit:
  "analyze_event aws m None = (m, Inr None) \<and> analyze_event aws m (Some empty_event) = (m, Inr None)"
  by (simp add: analyze_event_def event_is_empty_def empty_event_def)

lemma complete_scenario_event_keyword_threat:
  "snd (analyze_event aws_ok init_monitor (Some complete_scenario_event)) =
     Inr (Some \<lparr>threat_type = ''KEYWORD_THREAT'',
                threat_description =
                  ''Critical security keyword detected: '' @ [CHR 0x27]
                    @ ''unauthorized access'' @ [CHR 0x27],
                risk_score = 9,
                detection_method = ''keyword_analysis''\<rparr>)"
  by code_simp

text \<open>
  Claim C1. The claim holds of every event that carries the keys the two print helpers
  read (\<open>analyze_event_selects_first_maximal\<close>), and the scenario event yields
  \<open>KEYWORD_THREAT\<close> with score 9 once it has a user and an event id
  (\<open>complete_scenario_event_keyword_threat\<close>). On the scenario event as the claim gives
  it, with no \<open>user_id\<close>, the code raises \<open>KeyError\<close> in \<open>_log_event_analysis\<close>
  before any rule runs, whatever the monitor and the collaborator.
\<close>

theorem scenario_event_raises_KeyError:
  "analyze_event aws m (Some scenario_event) = (m, Inl (KeyError ''user_id''))"
  by (simp add: analyze_event_def scenario_event_def empty_event_def event_is_empty_def
      log_event_analysis_def)

text \<open>
  Claim C4. A missing or empty event returns none (\<open>analyze_event_short_circuit\<close>) and
  the rules themselves never raise on events whose values have the generator's types;
  there the only exceptions of \<open>analyze_event\<close> are the \<open>KeyError\<close>s of the two print
  helpers (\<open>analyze_event_raises_only_KeyError\<close>). But
  those are raised: a non-empty event without \<open>event_type\<close> makes
  \<open>_log_event_analysis\<close> raise \<open>KeyError\<close>.
\<close>

theorem missing_event_type_raises_KeyError:
  "analyze_event aws m (Some description_only_event) = (m, Inl (KeyError ''event_type''))"
  by (simp add: analyze_event_def description_only_event_def empty_event_def event_is_empty_def
      log_event_analysis_def)


section \<open>What analyze_event changes\<close>

text \<open>
  Claim C10. \<open>analyze_event\<close> changes nothing but the failed-login counter. For a
  missing event and for every event whose type is not \<open>failed_login\<close> the monitor is
  left exactly as it was. For every failed login of a user \<open>u\<close> from an address
  \<open>ip\<close> the key formed from the pair gets its count raised by exactly 1 (a missing
  count is 0), every other key keeps its value and the threshold is unchanged, whatever
  the call returns or raises afterwards.
\<close>

theorem analyze_event_changes_one_counter:
  "fst (analyze_event aws m None) = m \<and>
   (event_type ev \<noteq> Some ''failed_login'' \<longrightarrow> fst (analyze_event aws m (Some ev)) = m) \<and>
   (event_type ev = Some ''failed_login'' \<and> user_id ev = Some u \<and> source_ip ev = Some ip \<longrightarrow>
      failed_login_attempts (fst (analyze_event aws m (Some ev))) (u @ ''@'' @ ip) =
        Some ((case failed_login_attempts m (u @ ''@'' @ ip) of None \<Rightarrow> 0 | Some c \<Rightarrow> c) + 1) \<and>
      (\<forall>k. k \<noteq> u @ ''@'' @ ip \<longrightarrow>
         failed_login_attempts (fst (analyze_event aws m (Some ev))) k =
           failed_login_attempts m k) \<and>
      max_failed_attempts (fst (analyze_event aws m (Some ev))) = max_failed_attempts m)"
proof -
  have absent: "fst (analyze_event aws m None) = m"
    by (simp add: analyze_event_def)
  have key: "login_key ev = u @ ''@'' @ ip" if "user_id ev = Some u" "source_ip ev = Some ip"
    using that by (simp add: login_key_def py_str_def)
  from absent analyze_event_counter_frame [of ev aws m] show ?thesis
    by (auto simp: key)
qed

theorem analyze_event_changes_one_counter_witness:
  "event_type complete_scenario_event \<noteq> Some ''failed_login'' \<and>
   fst (analyze_event aws_ok init_monitor (Some complete_scenario_event)) = init_monitor \<and>
   event_type generated_failed_login = Some ''failed_login'' \<and>
   user_id generated_failed_login = Some ''test_account'' \<and>
   source_ip generated_failed_login = Some ''198.51.100.23'' \<and>
   failed_login_attempts (fst (analyze_event aws_ok init_monitor (Some generated_failed_login)))
     (''test_account'' @ ''@'' @ ''198.51.100.23'') = Some 1 \<and>
   failed_login_attempts (fst (analyze_event aws_ok init_monitor (Some generated_failed_login)))
     ''user001@10.0.0.5'' = None \<and>
   snd (analyze_event aws_ok init_monitor (Some generated_failed_login)) =
     Inr (Some \<lparr>threat_type = ''THREAT_INDICATORS_DETECTED'',
                threat_description =
                  ''Multiple threat indicators present: brute_force, suspicious_ip'',
                risk_score = 9,
                detection_method = ''threat_intelligence''\<rparr>)"
proof -
  have other: "event_type complete_scenario_event \<noteq> Some ''failed_login''"
    by (simp add: complete_scenario_event_def scenario_event_def empty_event_def)
  have login: "event_type generated_failed_login = Some ''failed_login''"
    "user_id generated_failed_login = Some ''test_account''"
    "source_ip generated_failed_login = Some ''198.51.100.23''"
    by (simp_all add: generated_failed_login_def)
  have fresh: "failed_login_attempts init_monitor k = None" for k
    by (simp add: init_monitor_def)
  have returned: "snd (analyze_event aws_ok init_monitor (Some generated_failed_login)) =
     Inr (Some \<lparr>threat_type = ''THREAT_INDICATORS_DETECTED'',
                threat_description =
                  ''Multiple threat indicators present: brute_force, suspicious_ip'',
                risk_score = 9,
                detection_method = ''threat_intelligence''\<rparr>)"
    by code_simp
  have distinct: "''user001@10.0.0.5'' \<noteq> ''test_account'' @ ''@'' @ ''198.51.100.23''"
    by simp
  note frame1 = analyze_event_changes_one_counter
      [of aws_ok init_monitor complete_scenario_event "''test_account''" "''198.51.100.23''"]
  note frame2 = analyze_event_changes_one_counter
      [of aws_ok init_monitor generated_failed_login "''test_account''" "''198.51.100.23''"]
  from frame1 other have unchanged:
    "fst (analyze_event aws_ok init_monitor (Some complete_scenario_event)) = init_monitor"
    by blast
  from frame2 login have counted:
    "failed_login_attempts (fst (analyze_event aws_ok init_monitor (Some generated_failed_login)))
       (''test_account'' @ ''@'' @ ''198.51.100.23'') = Some 1"
    by (simp add: fresh)
  from frame2 login distinct have kept:
    "failed_login_attempts (fst (analyze_event aws_ok init_monitor (Some generated_failed_login)))
       ''user001@10.0.0.5'' = None"
    by (simp add: fresh)
  from other unchanged login counted kept returned show ?thesis
    by blast
qed


section \<open>The failed-login counter\<close>

lemma brute_force_threat_fields [simp]:
  "threat_type (brute_force_threat n) = ''BRUTE_FORCE_ATTACK''"
  "risk_score (brute_force_threat n) = 8"
  by (simp_all add: brute_force_threat_def)

lemma failed_login_of_key: "failed_login_of u ip ev \<Longrightarrow> login_key ev = u @ ''@'' @ ip"
  by (simp add: failed_login_of_def login_key_def py_str_def)

lemma analyze_event_failed_login_monitor:
  assumes "failed_login_of u ip ev"
  shows "fst (analyze_event aws m (Some ev)) =
     m\<lparr>failed_login_attempts := (failed_login_attempts m)
          (u @ ''@'' @ ip \<mapsto>
             (case failed_login_attempts m (u @ ''@'' @ ip) of None \<Rightarrow> 0 | Some c \<Rightarrow> c) + 1)\<rparr>"
  using assms analyze_event_counter_frame [of ev aws m] failed_login_of_key [OF assms]
  by (simp add: failed_login_of_def)

lemma failed_login_rule_candidate:
  assumes "failed_login_of u ip ev"
  shows "snd (check_failed_login_pattern m ev) =
     (let n = (case failed_login_attempts m (u @ ''@'' @ ip) of None \<Rightarrow> 0 | Some c \<Rightarrow> c) + 1
      in if max_failed_attempts m \<le> n then Some (brute_force_threat n) else None)"
  using assms failed_login_of_key [OF assms]
  by (simp add: check_failed_login_pattern_def failed_login_of_def Let_def)

lemma analyze_event_failed_login_below_threshold:
  assumes "failed_login_of u ip ev"
    and "(case failed_login_attempts m (u @ ''@'' @ ip) of None \<Rightarrow> 0 | Some c \<Rightarrow> c) + 1
           < max_failed_attempts m"
    and "no_other_rule_fires ev"
  shows "snd (analyze_event aws m (Some ev)) = Inr None"
proof -
  from assms(1) have nonempty: "\<not> event_is_empty ev"
    by (auto simp: failed_login_of_def event_is_empty_def)
  from assms(1) have logged: "log_event_analysis ev = Inr ()"
    by (simp add: failed_login_of_def log_event_analysis_def)
  have "rule_candidates m ev = [None, None, None, None, None, None, None]"
    using assms(2,3) failed_login_rule_candidate [OF assms(1), of m]
    by (simp add: rule_candidates_def no_other_rule_fires_def Let_def)
  then show ?thesis
    by (simp add: analyze_event_unfold [OF nonempty logged])
qed

lemma foldl_brute_force_wins:
  assumes "scores_below 8 c1" and "scores_below 8 c2" and "scores_below 8 c3"
    and "scores_below 8 c4" and "scores_below 9 c6" and "scores_below 9 c7"
    and "risk_score b = 8"
  shows "foldl update_threat_info None [c1, c2, c3, c4, Some b, c6, c7] = Some b"
proof -
  have early: "\<exists>t. update_threat_info a c = t \<and> scores_below 8 t"
    if "scores_below 8 a" "scores_below 8 c" for a c
    using that by (auto simp: scores_below_def update_threat_info_def split: option.splits)
  have start: "scores_below 8 (None :: threat option)"
    by (simp add: scores_below_def)
  let ?t4 = "update_threat_info (update_threat_info (update_threat_info
               (update_threat_info None c1) c2) c3) c4"
  have t4: "scores_below 8 ?t4"
    using early start assms(1-4) by metis
  have t5: "update_threat_info ?t4 (Some b) = Some b"
    using t4 assms(7) by (auto simp: scores_below_def update_threat_info_def split: option.splits)
  have late: "update_threat_info (Some b) c = Some b" if "scores_below 9 c" for c
    using that assms(7) by (auto simp: scores_below_def update_threat_info_def split: option.splits)
  show ?thesis
    by (simp only: foldl.simps t5 late [OF assms(5)] late [OF assms(6)])
qed

lemma analyze_event_failed_login_at_threshold:
  assumes "failed_login_of u ip ev"
    and "max_failed_attempts m
           \<le> (case failed_login_attempts m (u @ ''@'' @ ip) of None \<Rightarrow> 0 | Some c \<Rightarrow> c) + 1"
    and "event_id ev \<noteq> None" and "resource ev \<noteq> None"
    and "no_rule_outscores_brute_force ev"
  shows "snd (analyze_event aws m (Some ev)) =
     Inr (Some (brute_force_threat
        ((case failed_login_attempts m (u @ ''@'' @ ip) of None \<Rightarrow> 0 | Some c \<Rightarrow> c) + 1)))"
proof -
  let ?n = "(case failed_login_attempts m (u @ ''@'' @ ip) of None \<Rightarrow> 0 | Some c \<Rightarrow> c) + 1"
  from assms(1) have nonempty: "\<not> event_is_empty ev"
    by (auto simp: failed_login_of_def event_is_empty_def)
  from assms(1) have logged: "log_event_analysis ev = Inr ()"
    by (simp add: failed_login_of_def log_event_analysis_def)
  from assms(1,3,4) have printed: "log_threat_detection th ev = Inr ()" for th
    by (simp add: failed_login_of_def log_threat_detection_def)
  have login: "snd (check_failed_login_pattern m ev) = Some (brute_force_threat ?n)"
    using assms(2) failed_login_rule_candidate [OF assms(1), of m] by (simp add: Let_def)
  have "foldl update_threat_info None (rule_candidates m ev) = Some (brute_force_threat ?n)"
    unfolding rule_candidates_def login
    using assms(5)
    by (intro foldl_brute_force_wins) (simp_all add: no_rule_outscores_brute_force_def)
  then show ?thesis
    by (simp add: analyze_event_unfold [OF nonempty logged] printed)
qed

lemma analyze_events_nth:
  "k < length evs \<Longrightarrow>
   snd (analyze_events aws m evs) ! k =
     snd (analyze_event aws (fst (analyze_events aws m (take k evs))) (Some (evs ! k)))"
proof (induction evs arbitrary: m k)
  case Nil
  then show ?case by simp
next
  case (Cons ev evs)
  show ?case
  proof (cases k)
    case 0
    then show ?thesis by (simp add: split_beta)
  next
    case (Suc j)
    with Cons.prems have "j < length evs" by simp
    from Cons.IH [OF this] Suc show ?thesis by (simp add: split_beta)
  qed
qed

lemma analyze_events_failed_login_counter:
  assumes "\<forall>ev\<in>set evs. failed_login_of u ip ev" and key: "key = u @ ''@'' @ ip"
  shows "max_failed_attempts (fst (analyze_events aws m evs)) = max_failed_attempts m \<and>
         (case failed_login_attempts (fst (analyze_events aws m evs)) key of
            None \<Rightarrow> 0 | Some c \<Rightarrow> c) =
           (case failed_login_attempts m key of None \<Rightarrow> 0 | Some c \<Rightarrow> c) + int (length evs) \<and>
         (evs \<noteq> [] \<longrightarrow> failed_login_attempts (fst (analyze_events aws m evs)) key \<noteq> None)"
  using assms(1)
proof (induction evs arbitrary: m)
  case Nil
  then show ?case by simp
next
  case (Cons ev evs)
  let ?m1 = "fst (analyze_event aws m (Some ev))"
  from Cons.prems have first: "failed_login_of u ip ev"
    and rest: "\<forall>e\<in>set evs. failed_login_of u ip e" by simp_all
  have m1: "?m1 = m\<lparr>failed_login_attempts := (failed_login_attempts m)
      (key \<mapsto> (case failed_login_attempts m key of None \<Rightarrow> 0 | Some c \<Rightarrow> c) + 1)\<rparr>"
    using analyze_event_failed_login_monitor [OF first, of aws m] unfolding key .
  have whole: "fst (analyze_events aws m (ev # evs)) = fst (analyze_events aws ?m1 evs)"
    by (simp add: split_beta)
  have threshold: "max_failed_attempts ?m1 = max_failed_attempts m"
    by (simp add: m1)
  have count: "failed_login_attempts ?m1 key =
      Some ((case failed_login_attempts m key of None \<Rightarrow> 0 | Some c \<Rightarrow> c) + 1)"
    by (simp add: m1)
  note ih = Cons.IH [OF rest, of ?m1]
  have max: "max_failed_attempts (fst (analyze_events aws ?m1 evs)) = max_failed_attempts m"
    using ih threshold by simp
  have total: "(case failed_login_attempts (fst (analyze_events aws ?m1 evs)) key of
            None \<Rightarrow> 0 | Some c \<Rightarrow> c) =
      (case failed_login_attempts m key of None \<Rightarrow> 0 | Some c \<Rightarrow> c) + int (length (ev # evs))"
    using ih by (simp add: count)
  have present: "failed_login_attempts (fst (analyze_events aws ?m1 evs)) key \<noteq> None"
  proof (cases "evs = []")
    case True
    then show ?thesis by (simp add: count)
  next
    case False
    with ih show ?thesis by blast
  qed
  show ?case
    unfolding whole using max total present by blast
qed

text \<open>
  Claim C2, as stated, fails. Three failed logins as the generator builds them from its
  own template, all with the same user and address, each give a threat from the first
  one on, and the third gives \<open>THREAT_INDICATORS_DETECTED\<close> with score 9, not
  \<open>BRUTE_FORCE_ATTACK\<close> with score 8: the other rules run on these events too and the
  highest score is returned.
\<close>

theorem generated_failed_logins_not_brute_force:
  "snd (analyze_events aws_ok init_monitor
          [generated_failed_login, generated_failed_login, generated_failed_login]) =
     replicate 3
       (Inr (Some \<lparr>threat_type = ''THREAT_INDICATORS_DETECTED'',
                    threat_description =
                      ''Multiple threat indicators present: brute_force, suspicious_ip'',
                    risk_score = 9,
                    detection_method = ''threat_intelligence''\<rparr>))"
  by code_simp

text \<open>
  Claim C2, amended. Take a monitor with threshold 3 that has no count yet for the key
  of user \<open>u\<close> and address \<open>ip\<close>, and feed it failed logins that all name that user
  and that address. Then the first and the second event produce no threat when no other
  rule fires on them. The third and every later event produces a \<open>BRUTE_FORCE_ATTACK\<close>
  threat with score 8 when it carries \<open>event_id\<close> and \<open>resource\<close> and no other rule
  outscores the failed-login rule on it: none of the four rules run before it scores 8
  or more, none of the two rules run after it scores more than 8. Whatever the other rules
  do, the count of the key is never lowered and ends at the number of events fed, and
  \<open>reset_monitoring_state\<close> leaves an empty counter map.
\<close>

theorem failed_login_threshold:
  assumes "max_failed_attempts m = 3"
    and "failed_login_attempts m (u @ ''@'' @ ip) = None"
    and "\<forall>ev\<in>set evs. failed_login_of u ip ev"
  shows "(\<forall>k<length evs.
            (k + 1 < 3 \<and> no_other_rule_fires (evs ! k) \<longrightarrow>
               snd (analyze_events aws m evs) ! k = Inr None) \<and>
            (3 \<le> k + 1 \<and> event_id (evs ! k) \<noteq> None \<and> resource (evs ! k) \<noteq> None \<and>
             no_rule_outscores_brute_force (evs ! k) \<longrightarrow>
               (\<exists>t. snd (analyze_events aws m evs) ! k = Inr (Some t) \<and>
                    threat_type t = ''BRUTE_FORCE_ATTACK'' \<and> risk_score t = 8)))
         \<and> (\<forall>k\<le>length evs. k \<noteq> 0 \<longrightarrow>
              failed_login_attempts (fst (analyze_events aws m (take k evs))) (u @ ''@'' @ ip) =
                Some (int k))
         \<and> failed_login_attempts (reset_monitoring_state (fst (analyze_events aws m evs))) =
             Map.empty"
proof -
  let ?key = "u @ ''@'' @ ip"
  have before: "max_failed_attempts (fst (analyze_events aws m (take k evs))) = 3 \<and>
      (case failed_login_attempts (fst (analyze_events aws m (take k evs))) ?key of
         None \<Rightarrow> 0 | Some c \<Rightarrow> c) = int k \<and>
      (k \<noteq> 0 \<longrightarrow>
         failed_login_attempts (fst (analyze_events aws m (take k evs))) ?key = Some (int k))"
    if "k \<le> length evs" for k
  proof -
    define key where "key = u @ ''@'' @ ip"
    have fl: "\<forall>ev\<in>set (take k evs). failed_login_of u ip ev"
      using assms(3) by (meson in_set_takeD)
    have len: "length (take k evs) = k"
      using that by simp
    have zero: "(case failed_login_attempts m key of None \<Rightarrow> 0 | Some c \<Rightarrow> c) = 0"
      using assms(2) by (simp add: key_def)
    note counter = analyze_events_failed_login_counter [OF fl key_def, of aws m]
    from counter have max: "max_failed_attempts (fst (analyze_events aws m (take k evs))) = 3"
      using assms(1) by simp
    from counter have total:
      "(case failed_login_attempts (fst (analyze_events aws m (take k evs))) key of
         None \<Rightarrow> 0 | Some c \<Rightarrow> c) = int k"
      by (simp only: zero len)
    have present: "failed_login_attempts (fst (analyze_events aws m (take k evs))) key = Some (int k)"
      if "k \<noteq> 0"
    proof -
      from that len have "take k evs \<noteq> []" by auto
      with counter obtain c where
        c: "failed_login_attempts (fst (analyze_events aws m (take k evs))) key = Some c"
        by blast
      with total show ?thesis by simp
    qed
    from max total present show ?thesis
      unfolding key_def by blast
  qed
  have quiet: "snd (analyze_events aws m evs) ! k = Inr None"
    if "k < length evs" "k + 1 < 3" "no_other_rule_fires (evs ! k)" for k
  proof -
    from that(1) assms(3) have fl: "failed_login_of u ip (evs ! k)" by simp
    from that(1) before [of k] that(2)
    have "(case failed_login_attempts (fst (analyze_events aws m (take k evs))) ?key of
             None \<Rightarrow> 0 | Some c \<Rightarrow> c) + 1
          < max_failed_attempts (fst (analyze_events aws m (take k evs)))"
      by simp
    from analyze_event_failed_login_below_threshold [OF fl this that(3), of aws]
    show ?thesis by (simp add: analyze_events_nth [OF that(1)])
  qed
  have loud: "\<exists>t. snd (analyze_events aws m evs) ! k = Inr (Some t) \<and>
      threat_type t = ''BRUTE_FORCE_ATTACK'' \<and> risk_score t = 8"
    if "k < length evs" "3 \<le> k + 1" "event_id (evs ! k) \<noteq> None" "resource (evs ! k) \<noteq> None"
      "no_rule_outscores_brute_force (evs ! k)" for k
  proof -
    from that(1) assms(3) have fl: "failed_login_of u ip (evs ! k)" by simp
    from that(1) before [of k] that(2)
    have "max_failed_attempts (fst (analyze_events aws m (take k evs)))
          \<le> (case failed_login_attempts (fst (analyze_events aws m (take k evs))) ?key of
               None \<Rightarrow> 0 | Some c \<Rightarrow> c) + 1"
      by simp
    from analyze_event_failed_login_at_threshold [OF fl this that(3,4,5), of aws]
    show ?thesis by (simp add: analyze_events_nth [OF that(1)])
  qed
  have reset: "failed_login_attempts (reset_monitoring_state (fst (analyze_events aws m evs))) =
      Map.empty"
    by (simp add: reset_monitoring_state_def)
  from quiet loud before reset show ?thesis by blast
qed

theorem failed_login_threshold_witness:
  "max_failed_attempts init_monitor = 3 \<and>
   failed_login_attempts init_monitor (''user001'' @ ''@'' @ ''10.0.0.5'') = None \<and>
   failed_login_of ''user001'' ''10.0.0.5'' plain_failed_login \<and>
   failed_login_of ''user001'' ''10.0.0.5'' busy_failed_login \<and>
   no_other_rule_fires plain_failed_login \<and>
   event_id busy_failed_login \<noteq> None \<and> resource busy_failed_login \<noteq> None \<and>
   no_rule_outscores_brute_force busy_failed_login \<and>
   snd (analyze_events aws_down init_monitor
          [plain_failed_login, plain_failed_login, plain_failed_login, busy_failed_login]) ! 1 =
     Inr None \<and>
   (\<exists>t. snd (analyze_events aws_down init_monitor
          [plain_failed_login, plain_failed_login, plain_failed_login, busy_failed_login]) ! 3 =
          Inr (Some t) \<and>
        threat_type t = ''BRUTE_FORCE_ATTACK'' \<and> risk_score t = 8) \<and>
   failed_login_attempts
     (fst (analyze_events aws_down init_monitor
          [plain_failed_login, plain_failed_login, plain_failed_login, busy_failed_login]))
     (''user001'' @ ''@'' @ ''10.0.0.5'') = Some 4"
proof -
  let ?evs = "[plain_failed_login, plain_failed_login, plain_failed_login, busy_failed_login]"
  have threshold: "max_failed_attempts init_monitor = 3"
    by (simp add: init_monitor_def)
  have fresh: "failed_login_attempts init_monitor (''user001'' @ ''@'' @ ''10.0.0.5'') = None"
    by (simp add: init_monitor_def)
  have plain: "failed_login_of ''user001'' ''10.0.0.5'' plain_failed_login"
    by code_simp
  have busy: "failed_login_of ''user001'' ''10.0.0.5'' busy_failed_login"
    by code_simp
  have quiet: "no_other_rule_fires plain_failed_login"
    by code_simp
  have keys: "event_id busy_failed_login \<noteq> None" "resource busy_failed_login \<noteq> None"
    by (simp_all add: busy_failed_login_def plain_failed_login_def)
  have beaten: "no_rule_outscores_brute_force busy_failed_login"
    by code_simp
  from plain busy have all: "\<forall>ev\<in>set ?evs. failed_login_of ''user001'' ''10.0.0.5'' ev"
    by simp
  note run = failed_login_threshold [OF threshold fresh all, of aws_down]
  from run have results: "\<forall>k<length ?evs.
      (k + 1 < 3 \<and> no_other_rule_fires (?evs ! k) \<longrightarrow>
         snd (analyze_events aws_down init_monitor ?evs) ! k = Inr None) \<and>
      (3 \<le> k + 1 \<and> event_id (?evs ! k) \<noteq> None \<and> resource (?evs ! k) \<noteq> None \<and>
       no_rule_outscores_brute_force (?evs ! k) \<longrightarrow>
         (\<exists>t. snd (analyze_events aws_down init_monitor ?evs) ! k = Inr (Some t) \<and>
              threat_type t = ''BRUTE_FORCE_ATTACK'' \<and> risk_score t = 8))"
    by blast
  from run have counts: "\<forall>k\<le>length ?evs. k \<noteq> 0 \<longrightarrow>
      failed_login_attempts (fst (analyze_events aws_down init_monitor (take k ?evs)))
        (''user001'' @ ''@'' @ ''10.0.0.5'') = Some (int k)"
    by blast
  have at1: "?evs ! 1 = plain_failed_login" by simp
  have at3: "?evs ! 3 = busy_failed_login" by simp
  have len: "length ?evs = 4" by simp
  from results [THEN spec, of 1] quiet
  have second: "snd (analyze_events aws_down init_monitor ?evs) ! 1 = Inr None"
    unfolding at1 len by simp
  from results [THEN spec, of 3] keys beaten
  have fourth:
    "\<exists>t. snd (analyze_events aws_down init_monitor ?evs) ! 3 = Inr (Some t) \<and>
        threat_type t = ''BRUTE_FORCE_ATTACK'' \<and> risk_score t = 8"
    unfolding at3 len by simp
  have whole: "take 4 ?evs = ?evs" by simp
  from counts [THEN spec, of 4]
  have count: "failed_login_attempts (fst (analyze_events aws_down init_monitor ?evs))
     (''user001'' @ ''@'' @ ''10.0.0.5'') = Some 4"
    unfolding whole len by simp
  from threshold fresh plain busy quiet keys beaten second fourth count show ?thesis
    by blast
qed


section \<open>Risk scores stay between 0 and 10\<close>

lemma handle_threat_keeps_range:
  assumes "score_in_range (risk_score th)"
    and "\<forall>r\<in>set (response_history h). score_in_range (rec_risk_score r)"
  shows "\<forall>r\<in>set (response_history (fst (snd (handle_threat h now (Some th) original_event)))).
           score_in_range (rec_risk_score r)"
proof (cases original_event)
  case None
  with assms(2) show ?thesis by (simp add: handle_threat_def)
next
  case (Some ev)
  with assms show ?thesis by (auto simp: handle_threat_history)
qed

text \<open>
  Claim C9. Every candidate produced by a rule and every candidate returned by
  \<open>analyze_event\<close> has a score between 0 and 10, for every event and every monitor. A
  record appended by \<open>handle_threat\<close> stores the score of the threat handed in,
  unchanged, so a call with a candidate in that range keeps every score of the history
  in the range. Hence along the monitoring loop, where the threat handed in is the one
  \<open>analyze_event\<close> returned, every record of the history has a score between 0 and 10,
  for every list of events, provided the records already there do.
\<close>

theorem risk_scores_in_range:
  "(\<forall>t. Some t \<in> set (rule_candidates m ev) \<longrightarrow> score_in_range (risk_score t)) \<and>
   (\<forall>t. snd (analyze_event aws m evo) = Inr (Some t) \<longrightarrow> score_in_range (risk_score t)) \<and>
   (\<not> event_is_empty ev \<longrightarrow>
      (\<exists>r. response_history (fst (snd (handle_threat h now (Some th) (Some ev)))) =
             response_history h @ [r] \<and>
           rec_risk_score r = risk_score th)) \<and>
   (score_in_range (risk_score th) \<and>
    (\<forall>r\<in>set (response_history h). score_in_range (rec_risk_score r)) \<longrightarrow>
      (\<forall>r\<in>set (response_history (fst (snd (handle_threat h now (Some th) original_event)))).
         score_in_range (rec_risk_score r))) \<and>
   ((\<forall>r\<in>set (response_history h). score_in_range (rec_risk_score r)) \<longrightarrow>
      (\<forall>r\<in>set (response_history (snd (process_events aws now (m, h) evs))).
         score_in_range (rec_risk_score r)))"
  using rule_candidates_in_range [of _ m ev] analyze_event_in_range [of aws m evo]
    process_events_history_in_range [of "(m, h)" aws now evs]
    handle_threat_keeps_range [of th h now original_event]
  by (simp add: handle_threat_history)

theorem risk_scores_in_range_witness:
  "response_history init_handler = [] \<and>
   score_in_range (risk_score unknown_threat) \<and>
   map rec_risk_score
     (response_history
        (fst (snd (handle_threat init_handler ''2025-01-01T00:00:00''
                     (Some unknown_threat) (Some plain_failed_login))))) = [5] \<and>
   map rec_risk_score
     (response_history
        (snd (process_events aws_down ''2025-01-01T00:00:00'' (init_monitor, init_handler)
                [complete_scenario_event, plain_failed_login, generated_failed_login]))) = [9, 9] \<and>
   list_all (\<lambda>r. score_in_range (rec_risk_score r))
     (response_history
        (snd (process_events aws_down ''2025-01-01T00:00:00'' (init_monitor, init_handler)
                [complete_scenario_event, plain_failed_login, generated_failed_login])))"
proof -
  have fresh: "response_history init_handler = []"
    by (simp add: init_handler_def)
  then have base: "\<forall>r\<in>set (response_history init_handler). score_in_range (rec_risk_score r)"
    by simp
  have candidate: "score_in_range (risk_score unknown_threat)"
    by (simp add: unknown_threat_def score_in_range_def)
  have nonempty: "\<not> event_is_empty plain_failed_login"
    by (simp add: event_is_empty_def plain_failed_login_def)
  have run: "map rec_risk_score
     (response_history
        (snd (process_events aws_down ''2025-01-01T00:00:00'' (init_monitor, init_handler)
                [complete_scenario_event, plain_failed_login, generated_failed_login]))) = [9, 9]"
    by code_simp
  note facts = risk_scores_in_range
      [where m = init_monitor and ev = plain_failed_login and aws = aws_down
         and evo = "Some plain_failed_login" and h = init_handler
         and now = "''2025-01-01T00:00:00''" and th = unknown_threat
         and original_event = "Some plain_failed_login"
         and evs = "[complete_scenario_event, plain_failed_login, generated_failed_login]"]
  from facts nonempty fresh have stored: "map rec_risk_score
     (response_history
        (fst (snd (handle_threat init_handler ''2025-01-01T00:00:00''
                     (Some unknown_threat) (Some plain_failed_login))))) = [5]"
    by (auto simp: unknown_threat_def)
  from facts base have "\<forall>r\<in>set (response_history
        (snd (process_events aws_down ''2025-01-01T00:00:00'' (init_monitor, init_handler)
                [complete_scenario_event, plain_failed_login, generated_failed_login]))).
      score_in_range (rec_risk_score r)"
    by blast
  then show ?thesis
    using fresh candidate stored run by (simp only: list_all_iff)
qed

end
